theory Spec2Isabelle
  imports Complex_Main
begin

section \<open>Values of the host language\<close>

text \<open>
  The worker is TypeScript. A \<^verbatim>\<open>number\<close> is modelled as a finite value, idealised as a
  real (rounding of IEEE doubles is not modelled), or \<^verbatim>\<open>NaN\<close>, which arithmetic on
  \<^verbatim>\<open>undefined\<close> produces. A \<^verbatim>\<open>string\<close> is a list of code units, here the code
  units below 256; all literals of the source are ASCII.
\<close>

datatype number = Num real | NaN

fun num_times :: "number \<Rightarrow> number \<Rightarrow> number" where
  "num_times (Num a) (Num b) = Num (a * b)"
| "num_times _ _ = NaN"

fun num_plus :: "number \<Rightarrow> number \<Rightarrow> number" where
  "num_plus (Num a) (Num b) = Num (a + b)"
| "num_plus _ _ = NaN"

text \<open>\<^verbatim>\<open>Array.prototype.join\<close> on strings.\<close>

fun join :: "string \<Rightarrow> string list \<Rightarrow> string" where
  "join sep [] = []"
| "join sep [x] = x"
| "join sep (x # y # ys) = x @ sep @ join sep (y # ys)"

text \<open>\<^verbatim>\<open>String.prototype.includes\<close>: the needle occurs at some position of the text.\<close>

fun startsWith :: "string \<Rightarrow> string \<Rightarrow> bool" where
  "startsWith hay [] = True"
| "startsWith [] (n # ns) = False"
| "startsWith (h # hs) (n # ns) = (h = n \<and> startsWith hs ns)"

fun includes_str :: "string \<Rightarrow> string \<Rightarrow> bool" where
  "includes_str [] needle = (needle = [])"
| "includes_str (h # hs) needle = (startsWith (h # hs) needle \<or> includes_str hs needle)"

section \<open>Metrics (src/observability/metrics.ts)\<close>

record rates =
  input :: real
  "output" :: real

text \<open>
  What a property read on the object literal \<^verbatim>\<open>pricing\<close> yields: one of the two rate
  objects, a member inherited from \<^verbatim>\<open>Object.prototype\<close> (an object without \<^verbatim>\<open>input\<close>
  and \<^verbatim>\<open>output\<close> fields), or \<^verbatim>\<open>undefined\<close>.
\<close>

datatype jsprop = RatesObj rates | OtherObj | Undefined

definition objectPrototypeKeys :: "string list" where
  "objectPrototypeKeys =
     [''constructor'', ''__defineGetter__'', ''__defineSetter__'', ''hasOwnProperty'',
      ''__lookupGetter__'', ''__lookupSetter__'', ''isPrototypeOf'',
      ''propertyIsEnumerable'', ''toString'', ''valueOf'', ''__proto__'',
      ''toLocaleString'']"

definition pricing :: "string \<Rightarrow> jsprop" where
  "pricing key =
     (if key = ''gpt-4o-mini''
        then RatesObj \<lparr>input = 0.15 / 1000000, output = 0.6 / 1000000\<rparr>
      else if key = ''text-embedding-3-small''
        then RatesObj \<lparr>input = 0.02 / 1000000, output = 0\<rparr>
      else if key \<in> set objectPrototypeKeys then OtherObj
      else Undefined)"

fun truthy :: "jsprop \<Rightarrow> bool" where
  "truthy Undefined = False"
| "truthy _ = True"

text \<open>\<^verbatim>\<open>rates.input\<close> and \<^verbatim>\<open>rates.output\<close>, as operands of a multiplication.\<close>

fun input_of :: "jsprop \<Rightarrow> number" where
  "input_of (RatesObj r) = Num (input r)"
| "input_of _ = NaN"

fun output_of :: "jsprop \<Rightarrow> number" where
  "output_of (RatesObj r) = Num (output r)"
| "output_of _ = NaN"

definition calculateCost :: "number \<Rightarrow> number \<Rightarrow> string \<Rightarrow> number" where
  "calculateCost promptTokens completionTokens model =
     (let rates = (if truthy (pricing model) then pricing model else pricing ''gpt-4o-mini'')
      in num_plus (num_times promptTokens (input_of rates))
                  (num_times completionTokens (output_of rates)))"

record scored =
  score :: real

definition calculateAverageScore :: "'a scored_scheme list \<Rightarrow> real" where
  "calculateAverageScore results =
     (if length results = 0 then 0
      else foldl (\<lambda>acc r. acc + score r) 0 results / real (length results))"

text \<open>
  \<^verbatim>\<open>Math.max(...xs)\<close> and \<^verbatim>\<open>Math.min(...xs)\<close> are only reached with a non-empty
  list; the empty case is the guard of the source.
\<close>

definition calculateTopScore :: "'a scored_scheme list \<Rightarrow> real" where
  "calculateTopScore results =
     (case map score results of [] \<Rightarrow> 0 | s # ss \<Rightarrow> fold max ss s)"

definition calculateMinScore :: "'a scored_scheme list \<Rightarrow> real" where
  "calculateMinScore results =
     (case map score results of [] \<Rightarrow> 0 | s # ss \<Rightarrow> fold min ss s)"

section \<open>Vector search action (convex/movies.ts)\<close>

text \<open>
  A match of the vector index (fields \<^verbatim>\<open>_id\<close>, \<^verbatim>\<open>_score\<close>), a stored movie document and
  the result type \<^verbatim>\<open>MovieSearchResult\<close>, an object with a \<^verbatim>\<open>score\<close> as the metrics
  expect it.
\<close>

record vectorMatch =
  vm_id :: string
  vm_score :: real

record movieDoc =
  doc_content :: string
  doc_embedding :: "real list"

record MovieSearchResult = scored +
  id' :: string
  content :: string

record vectorQuery =
  vector :: "real list"
  limit :: real

record searchArgs =
  embedding :: "real list"
  matchThreshold :: real
  matchCount :: real

text \<open>
  The action context: the vector index is the external store (it answers a query with
  its matches or throws), the table \<^verbatim>\<open>movies\<close> is a map from ids to documents.
\<close>

record convexCtx =
  vectorSearch :: "string \<Rightarrow> string \<Rightarrow> vectorQuery \<Rightarrow> string + vectorMatch list"
  db :: "string \<rightharpoonup> movieDoc"

datatype convexCall =
    VectorSearch string string vectorQuery
  | RunQuery string string

definition getMovie :: "convexCtx \<Rightarrow> string \<Rightarrow> movieDoc option" where
  "getMovie ctx ident = db ctx ident"

definition searchMovies ::
  "convexCtx \<Rightarrow> searchArgs \<Rightarrow> convexCall list \<times> (string + MovieSearchResult list)" where
  "searchMovies ctx args =
     (let query = \<lparr>vector = embedding args, limit = matchCount args\<rparr> in
      case vectorSearch ctx ''movies'' ''by_embedding'' query of
        Inl err \<Rightarrow> ([VectorSearch ''movies'' ''by_embedding'' query], Inl err)
      | Inr results \<Rightarrow>
          (let filteredResults = filter (\<lambda>result. vm_score result \<ge> matchThreshold args) results;
               movies = map (\<lambda>result.
                   \<lparr>score = vm_score result,
                    id' = vm_id result,
                    content = (case getMovie ctx (vm_id result) of
                                 None \<Rightarrow> '''' | Some doc \<Rightarrow> doc_content doc)\<rparr>)
                 filteredResults
           in (VectorSearch ''movies'' ''by_embedding'' query
                 # map (\<lambda>result. RunQuery ''getMovie'' (vm_id result)) filteredResults,
               Inr movies)))"

section \<open>Request handler (src/index.ts)\<close>

subsection \<open>Requests, responses, collaborators\<close>

datatype json =
    JNull
  | JBool bool
  | JNum number
  | JStr string
  | JArr "json list"
  | JObj "(string \<times> json) list"

record personResponse =
  userResponses :: string
  stringifiedQueryAndResponses :: string

record setUpPreferences =
  numberOfPeople :: string
  time :: string

record requestData =
  movieSetUpPreferences :: setUpPreferences
  peopleResponses :: "personResponse list"

text \<open>
  A request: its method, the value of \<^verbatim>\<open>headers.get('origin')\<close> and the result of
  \<^verbatim>\<open>request.json()\<close>, \<open>None\<close> when that promise rejects.
\<close>

record request =
  "method" :: string
  origin :: "string option"
  json_body :: "requestData option"

record env =
  ALLOWED_ORIGINS :: "string option"

record response =
  status :: nat
  headers :: "(string \<times> string) list"
  body :: "json option"

text \<open>The handler resolves with a response or lets an exception escape.\<close>

datatype outcome = Responded response | Uncaught string

record embeddingRequest =
  emb_model :: string
  emb_input :: string
  encoding_format :: string

record chatMessage =
  role :: string
  msg_content :: string

record chatRequest =
  chat_model :: string
  messages :: "chatMessage list"
  temperature :: real

record usage =
  prompt_tokens :: nat
  completion_tokens :: nat
  total_tokens :: nat

record choice =
  message_content :: "string option"

record chatCompletion =
  choices :: "choice list"
  chat_usage :: "usage option"

text \<open>
  The remote collaborators. A call answers \<open>Inr\<close> its result or \<open>Inl\<close> the message of
  the error it throws. The embedding service answers the list \<^verbatim>\<open>data\<close> of embeddings.
\<close>

record services =
  embeddings_create :: "embeddingRequest \<Rightarrow> string + real list list"
  convex :: convexCtx
  chat_completions_create :: "chatRequest \<Rightarrow> string + chatCompletion"

text \<open>What the handler does besides answering, in the order it does it.\<close>

text \<open>
  A thrown error is its message. The action \<^verbatim>\<open>api.movies.searchMovies\<close> is named
  \<^verbatim>\<open>movies:searchMovies\<close>.
\<close>

datatype effect =
    ConsoleError string string
  | OpikTrace string json "string list"
  | TraceSpan string string json
  | SpanUpdate string json
  | SpanEnd string
  | TraceUpdate json
  | TraceEnd
  | OpikFlush
  | EmbeddingsCreate embeddingRequest
  | ConvexAction string searchArgs
  | ChatCompletionsCreate chatRequest

subsection \<open>Origin policy\<close>

fun split_on :: "char \<Rightarrow> string \<Rightarrow> string list" where
  "split_on c [] = [[]]"
| "split_on c (x # xs) =
     (if x = c then [] # split_on c xs
      else (case split_on c xs of [] \<Rightarrow> [[x]] | y # ys \<Rightarrow> (x # y) # ys))"

definition isWhiteSpace :: "char \<Rightarrow> bool" where
  "isWhiteSpace c = (of_char c \<in> {9, 10, 11, 12, 13, 32, 160 :: nat})"

definition trim :: "string \<Rightarrow> string" where
  "trim s = rev (dropWhile isWhiteSpace (rev (dropWhile isWhiteSpace s)))"

definition getAllowedOrigins :: "env \<Rightarrow> string list" where
  "getAllowedOrigins e =
     (case ALLOWED_ORIGINS e of
        None \<Rightarrow> [''http://localhost:5173'']
      | Some s \<Rightarrow> if s = [] then [''http://localhost:5173'']
                  else map trim (split_on (CHR '','') s))"

definition isOriginAllowed :: "string option \<Rightarrow> string list \<Rightarrow> bool" where
  "isOriginAllowed orig allowedOrigins =
     (case orig of
        None \<Rightarrow> False
      | Some v \<Rightarrow> if v = [] then False else v \<in> set allowedOrigins)"

definition corsHeaders :: "string option \<Rightarrow> env \<Rightarrow> (string \<times> string) list" where
  "corsHeaders orig e =
     (let allowedOrigins = getAllowedOrigins e;
          isAllowed = isOriginAllowed orig allowedOrigins
      in [(''Access-Control-Allow-Origin'',
             (case orig of
                None \<Rightarrow> ''''
              | Some v \<Rightarrow> if isAllowed \<and> v \<noteq> [] then v else '''')),
          (''Access-Control-Allow-Methods'', ''POST, OPTIONS''),
          (''Access-Control-Allow-Headers'', ''Content-Type, Authorization''),
          (''Access-Control-Allow-Credentials'', ''true''),
          (''Content-Type'', ''application/json'')])"

subsection \<open>Prompts and payloads\<close>

definition tabs :: "nat \<Rightarrow> string" where
  "tabs k = replicate k (CHR 0x09)"

definition systemPrompt :: "string \<Rightarrow> string" where
  \<open>systemPrompt people =
     ''You are an expert movie buff and a recommendation buddy who enjoys helping people find movies that match their preferences. \<newline>''
     @ ''\<newline>''
     @ tabs 4 @ ''There are '' @ people @ '' people in the group who have provided their responses to the questions about movies.\<newline>''
     @ tabs 3 @ ''  You will be given 4 questions from '' @ people @ '' people. \<newline>''
     @ tabs 3 @ ''  You will also be given 6 movie recommendations the most aligns to the preferences based on their answers.\<newline>''
     @ tabs 3 @ ''  Your main job is to formulate a short answer to the questions using the provided questions and answers.\<newline>''
     @ tabs 3 @ ''  Formulate 6 short paragraphs for each movie recommendation with more details about the movie. DO NOT SUGGEST MOVIES FROM THE RESPONSES. ONLY USE THE MOVIE RECOMMENDATIONS. \<newline>''
     @ tabs 3 @ ''  If you are unsure and cannot find the users answers or have no movie recommendation or more details about the movie, say, "Sorry, I don't know a movie at the moment. Lets have another go with the questions from the previous section\<newline>''
     @ tabs 3 @ ''  ." Please do not make up the answer. Also dont repeat the users answers.\<newline>''
     @ ''\<newline>''
     @ ''\<newline>''
     @ tabs 3 @ ''  Here is the format of the response:\<newline>''
     @ tabs 3 @ ''  {\<newline>''
     @ tabs 4 @ ''"movieRecommendations": [\<newline>''
     @ tabs 5 @ ''{\<newline>''
     @ tabs 6 @ ''"title": "Movie Title",\<newline>''
     @ tabs 6 @ ''"releaseYear": "2024",\<newline>''
     @ tabs 6 @ ''"content": "Short paragraph about the movie ..."\<newline>''
     @ tabs 5 @ ''}\<newline>''
     @ tabs 4 @ '']\<newline>''
     @ tabs 3 @ ''  }\<newline>''
     @ tabs 3 @ ''  ''\<close>

definition userPrompt :: "string \<Rightarrow> string \<Rightarrow> string \<Rightarrow> string" where
  "userPrompt people allParticipantsResponsesAndAnswers movieRecommendationsResultsString =
     ''Questions and Answers from '' @ people @ '' people: ''
     @ allParticipantsResponsesAndAnswers @ ''\<newline> Movie Recommendations: ''
     @ movieRecommendationsResultsString"

definition jnat :: "nat \<Rightarrow> json" where
  "jnat n = JNum (Num (real n))"

definition movie_json :: "MovieSearchResult \<Rightarrow> json" where
  "movie_json m = JObj [(''id'', JStr (id' m)), (''content'', JStr (content m)),
                        (''score'', JNum (Num (score m)))]"

definition recommendations_json :: "MovieSearchResult list option \<Rightarrow> json" where
  "recommendations_json r = (case r of None \<Rightarrow> JNull | Some ms \<Rightarrow> JArr (map movie_json ms))"

text \<open>The answer and the trace entries of a \<^verbatim>\<open>catch\<close> block.\<close>

definition errorResponse :: "(string \<times> string) list \<Rightarrow> string \<Rightarrow> string \<Rightarrow> outcome" where
  "errorResponse allowedHeaders err details =
     Responded \<lparr>status = 500, headers = allowedHeaders,
                body = Some (JObj [(''error'', JStr err), (''details'', JStr details)])\<rparr>"

definition spanError :: "string \<Rightarrow> string \<Rightarrow> effect list" where
  "spanError name msg =
     [SpanUpdate name (JObj [(''output'', JObj [(''error'', JStr msg)])]), SpanEnd name]"

text \<open>
  The message of the \<^verbatim>\<open>TypeError\<close> that reading a field of \<^verbatim>\<open>xs[0]\<close> throws when
  \<^verbatim>\<open>xs\<close> is empty.
\<close>

definition readOfUndefined :: "string \<Rightarrow> string" where
  \<open>readOfUndefined field = ''Cannot read properties of undefined (reading ''
     @ [CHR 0x27] @ field @ [CHR 0x27] @ '')''\<close>

text \<open>Effects first, then the rest of the handler.\<close>

definition preceded :: "effect list \<Rightarrow> effect list \<times> outcome \<Rightarrow> effect list \<times> outcome" where
  "preceded es rest = (es @ fst rest, snd rest)"

subsection \<open>Generation stage\<close>

record responseObject =
  ro_content :: string
  movieRecommendations :: "MovieSearchResult list option"
  noMatchFromLLM :: bool

definition sentinel :: string where
  \<open>sentinel = ''Sorry, I don't know a movie at the moment''\<close>

definition makeResponseObject :: "MovieSearchResult list \<Rightarrow> string option \<Rightarrow> responseObject" where
  "makeResponseObject matchedResults messageContent =
     (if (case messageContent of None \<Rightarrow> False | Some c \<Rightarrow> includes_str c sentinel)
      then \<lparr>ro_content = '''', movieRecommendations = None, noMatchFromLLM = True\<rparr>
      else \<lparr>ro_content = (case messageContent of None \<Rightarrow> '''' | Some c \<Rightarrow> c),
            movieRecommendations = Some matchedResults,
            noMatchFromLLM = False\<rparr>)"

definition tokens :: "chatCompletion \<Rightarrow> (usage \<Rightarrow> nat) \<Rightarrow> nat" where
  "tokens resp field = (case chat_usage resp of None \<Rightarrow> 0 | Some u \<Rightarrow> field u)"

definition generationFailure ::
  "(string \<times> string) list \<Rightarrow> nat \<Rightarrow> number \<Rightarrow> string \<Rightarrow> effect list \<times> outcome" where
  "generationFailure allowedHeaders totalTokens totalCost msg =
     (ConsoleError ''Error creating chat completion:'' msg
        # spanError ''llm-generation'' msg
        @ [TraceUpdate (JObj
             [(''output'', JObj [(''error'', JStr ''Error creating chat completion'')]),
              (''metadata'', JObj [(''totalTokens'', jnat totalTokens),
                                   (''totalCost'', JNum totalCost),
                                   (''success'', JBool False),
                                   (''errorMessage'', JStr msg)])]),
           TraceEnd, OpikFlush],
      errorResponse allowedHeaders ''Error creating chat completion'' msg)"

definition generationSuccess ::
  "(string \<times> string) list \<Rightarrow> MovieSearchResult list \<Rightarrow> chatCompletion \<Rightarrow> choice
     \<Rightarrow> nat \<Rightarrow> number \<Rightarrow> effect list \<times> outcome" where
  "generationSuccess allowedHeaders matchedResults resp first totalTokens totalCost =
     (let usageJson = JObj [(''promptTokens'', jnat (tokens resp prompt_tokens)),
                            (''completionTokens'', jnat (tokens resp completion_tokens)),
                            (''totalTokens'', jnat (tokens resp total_tokens))];
          responseLength = (case message_content first of None \<Rightarrow> 0 | Some c \<Rightarrow> length c);
          ro = makeResponseObject matchedResults (message_content first)
      in ([SpanUpdate ''llm-generation'' (JObj
             [(''output'', JObj [(''responseLength'', jnat responseLength),
                                 (''promptTokens'', jnat (tokens resp prompt_tokens)),
                                 (''completionTokens'', jnat (tokens resp completion_tokens)),
                                 (''totalTokens'', jnat (tokens resp total_tokens))]),
              (''metadata'', JObj [(''usage'', usageJson)])]),
           SpanEnd ''llm-generation'',
           TraceUpdate (JObj
             [(''output'', JObj [(''movieRecommendations'', recommendations_json (movieRecommendations ro)),
                                 (''content'', JStr (ro_content ro)),
                                 (''noMatchFromLLM'', JBool (noMatchFromLLM ro))]),
              (''metadata'', JObj [(''totalTokens'', jnat totalTokens),
                                   (''totalCost'', JNum totalCost),
                                   (''success'', JBool True)])]),
           TraceEnd, OpikFlush],
          Responded \<lparr>status = 200, headers = allowedHeaders,
                     body = Some (JObj
                       [(''movieRecommendations'', recommendations_json (movieRecommendations ro)),
                        (''content'', JStr (ro_content ro)),
                        (''noMatchFromLLM'', JBool (noMatchFromLLM ro))])\<rparr>))"

definition resultsString :: "MovieSearchResult list \<Rightarrow> string" where
  "resultsString matchedResults =
     join ''\<newline>\<newline>'' (filter (\<lambda>c. c \<noteq> []) (map content matchedResults))"

definition chatMessages :: "requestData \<Rightarrow> MovieSearchResult list \<Rightarrow> chatMessage list" where
  "chatMessages requestData matchedResults =
     (let people = numberOfPeople (movieSetUpPreferences requestData);
          allParticipantsResponsesAndAnswers =
            join ''\<newline>'' (map stringifiedQueryAndResponses (peopleResponses requestData));
          movieRecommendationsResultsString = resultsString matchedResults
      in [\<lparr>role = ''system'', msg_content = systemPrompt people\<rparr>,
          \<lparr>role = ''user'',
           msg_content = userPrompt people allParticipantsResponsesAndAnswers
                           movieRecommendationsResultsString\<rparr>])"

definition chatRequestOf :: "requestData \<Rightarrow> MovieSearchResult list \<Rightarrow> chatRequest" where
  "chatRequestOf requestData matchedResults =
     \<lparr>chat_model = ''gpt-4o-mini'', messages = chatMessages requestData matchedResults,
      temperature = 1.1\<rparr>"

definition generationStage ::
  "services \<Rightarrow> (string \<times> string) list \<Rightarrow> requestData \<Rightarrow> MovieSearchResult list \<Rightarrow> number
     \<Rightarrow> effect list \<times> outcome" where
  "generationStage sv allowedHeaders requestData matchedResults totalCost =
     (let msgs = chatMessages requestData matchedResults;
          llmSpan = TraceSpan ''llm-generation'' ''llm'' (JObj
            [(''model'', JStr ''gpt-4o-mini''),
             (''temperature'', JNum (Num 1.1)),
             (''systemPromptLength'', jnat (length (msg_content (msgs ! 0)))),
             (''userPromptLength'', jnat (length (msg_content (msgs ! 1)))),
             (''movieContextLength'', jnat (length (resultsString matchedResults)))]);
          chatReq = chatRequestOf requestData matchedResults
      in preceded [llmSpan, ChatCompletionsCreate chatReq]
           (case chat_completions_create sv chatReq of
              Inl msg \<Rightarrow> generationFailure allowedHeaders 0 totalCost msg
            | Inr resp \<Rightarrow>
                (let totalTokens = tokens resp total_tokens;
                     totalCost' = num_plus totalCost
                       (calculateCost (Num (real (tokens resp prompt_tokens)))
                                      (Num (real (tokens resp completion_tokens)))
                                      ''gpt-4o-mini'')
                 in case choices resp of
                      [] \<Rightarrow> generationFailure allowedHeaders totalTokens totalCost'
                              (readOfUndefined ''message'')
                    | first # _ \<Rightarrow> generationSuccess allowedHeaders matchedResults resp first
                                    totalTokens totalCost')))"

subsection \<open>Retrieval stage\<close>

definition searchArgsOf :: "real list \<Rightarrow> searchArgs" where
  "searchArgsOf emb = \<lparr>embedding = emb, matchThreshold = 0.2, matchCount = 6\<rparr>"

definition searchStage ::
  "services \<Rightarrow> (string \<times> string) list \<Rightarrow> requestData \<Rightarrow> real list \<Rightarrow> number
     \<Rightarrow> effect list \<times> outcome" where
  "searchStage sv allowedHeaders requestData emb totalCost =
     (let searchSpan = TraceSpan ''vector-search'' ''general'' (JObj
            [(''threshold'', JNum (Num 0.2)),
             (''matchCount'', JNum (Num 6)),
             (''embeddingDimensions'', jnat (length emb))]);
          args = searchArgsOf emb
      in preceded [searchSpan, ConvexAction ''movies:searchMovies'' args]
           (case snd (searchMovies (convex sv) args) of
              Inl msg \<Rightarrow>
                (ConsoleError ''Error matching documents in Convex:'' msg
                   # spanError ''vector-search'' msg
                   @ [TraceUpdate (JObj
                        [(''output'', JObj [(''error'', JStr ''Error matching documents in Convex'')])]),
                      TraceEnd, OpikFlush],
                 errorResponse allowedHeaders ''Error matching documents in Convex'' msg)
            | Inr matchedResults \<Rightarrow>
                preceded
                  [SpanUpdate ''vector-search'' (JObj
                     [(''output'', JObj
                        [(''resultsCount'', jnat (length matchedResults)),
                         (''topScore'', JNum (Num (calculateTopScore matchedResults))),
                         (''avgScore'', JNum (Num (calculateAverageScore matchedResults))),
                         (''minScore'', JNum (Num (calculateMinScore matchedResults)))])]),
                   SpanEnd ''vector-search'']
                  (generationStage sv allowedHeaders requestData matchedResults totalCost)))"

subsection \<open>Embedding stage\<close>

definition allParticipantsResponses :: "requestData \<Rightarrow> string" where
  "allParticipantsResponses requestData =
     join ''\<newline>'' (map userResponses (peopleResponses requestData))"

definition embeddingText :: "requestData \<Rightarrow> string" where
  "embeddingText requestData =
     time (movieSetUpPreferences requestData) @ ''\<newline>'' @ allParticipantsResponses requestData"

definition embeddingRequestOf :: "requestData \<Rightarrow> embeddingRequest" where
  "embeddingRequestOf requestData =
     \<lparr>emb_model = ''text-embedding-3-small'', emb_input = embeddingText requestData,
      encoding_format = ''float''\<rparr>"

definition embeddingCost :: "requestData \<Rightarrow> number" where
  "embeddingCost requestData =
     (let estimatedTokens = \<lceil>real (length (embeddingText requestData)) / 4\<rceil>
      in num_plus (Num 0)
           (calculateCost (Num (of_int estimatedTokens)) (Num 0) ''text-embedding-3-small''))"

definition embeddingFailure :: "(string \<times> string) list \<Rightarrow> string \<Rightarrow> effect list \<times> outcome" where
  "embeddingFailure allowedHeaders msg =
     (ConsoleError ''Error creating embeddings for userResponses:'' msg
        # spanError ''generate-embedding'' msg
        @ [TraceUpdate (JObj
             [(''output'', JObj [(''error'', JStr ''Error creating embeddings for userResponses'')])]),
           TraceEnd, OpikFlush],
      errorResponse allowedHeaders ''Error creating embeddings for userResponses'' msg)"

definition pipeline ::
  "services \<Rightarrow> (string \<times> string) list \<Rightarrow> requestData \<Rightarrow> effect list \<times> outcome" where
  "pipeline sv allowedHeaders requestData =
     (let availableRunTime = time (movieSetUpPreferences requestData);
          people = numberOfPeople (movieSetUpPreferences requestData);
          trace = OpikTrace ''movie-recommendation-request'' (JObj
            [(''numberOfPeople'', JStr people),
             (''availableRunTime'', JStr availableRunTime),
             (''userResponses'', JStr (allParticipantsResponses requestData)),
             (''peopleResponsesCount'', jnat (length (peopleResponses requestData)))])
            [''production'', ''people-'' @ people, ''runtime-'' @ availableRunTime];
          text = embeddingText requestData;
          embeddingSpan = TraceSpan ''generate-embedding'' ''general'' (JObj
            [(''text'', JStr text),
             (''model'', JStr ''text-embedding-3-small''),
             (''inputLength'', jnat (length text))]);
          embeddingRequest = embeddingRequestOf requestData
      in preceded [trace, embeddingSpan, EmbeddingsCreate embeddingRequest]
           (case embeddings_create sv embeddingRequest of
              Inl msg \<Rightarrow> embeddingFailure allowedHeaders msg
            | Inr data \<Rightarrow>
                (case data of
                   [] \<Rightarrow> embeddingFailure allowedHeaders (readOfUndefined ''embedding'')
                 | emb # _ \<Rightarrow>
                     (let totalCost = embeddingCost requestData
                      in preceded
                           [SpanUpdate ''generate-embedding'' (JObj
                              [(''output'', JObj [(''dimensions'', jnat (length emb))])]),
                            SpanEnd ''generate-embedding'']
                           (searchStage sv allowedHeaders requestData emb totalCost)))))"

subsection \<open>The handler\<close>

definition fetch :: "request \<Rightarrow> env \<Rightarrow> services \<Rightarrow> effect list \<times> outcome" where
  "fetch req e sv =
     (let allowedOrigins = getAllowedOrigins e;
          allowedHeaders = corsHeaders (origin req) e
      in if method req = ''OPTIONS''
           then ([], Responded \<lparr>status = 204, headers = allowedHeaders, body = None\<rparr>)
         else if \<not> isOriginAllowed (origin req) allowedOrigins
           then ([], Responded \<lparr>status = 403, headers = allowedHeaders,
                                 body = Some (JObj [(''error'', JStr ''Origin not allowed'')])\<rparr>)
         else if method req \<noteq> ''POST''
           then ([], Responded \<lparr>status = 405, headers = allowedHeaders,
                                 body = Some (JObj [(''error'',
                                   JStr (''Method '' @ method req @ '' not allowed''))])\<rparr>)
         else (case json_body req of
                 None \<Rightarrow> ([], Uncaught ''request.json()'')
               | Some requestData \<Rightarrow> pipeline sv allowedHeaders requestData))"

section \<open>Observations on a run of the handler\<close>

definition responseOf :: "effect list \<times> outcome \<Rightarrow> response option" where
  "responseOf run = (case snd run of Responded r \<Rightarrow> Some r | Uncaught _ \<Rightarrow> None)"

definition statusOf :: "effect list \<times> outcome \<Rightarrow> nat option" where
  "statusOf run = map_option status (responseOf run)"

definition headerOf :: "string \<Rightarrow> effect list \<times> outcome \<Rightarrow> string option" where
  "headerOf name run =
     (case responseOf run of None \<Rightarrow> None | Some r \<Rightarrow> map_of (headers r) name)"

fun fieldOf :: "string \<Rightarrow> json \<Rightarrow> json option" where
  "fieldOf name (JObj members) = map_of members name"
| "fieldOf name _ = None"

definition bodyField :: "string \<Rightarrow> effect list \<times> outcome \<Rightarrow> json option" where
  "bodyField name run =
     (case responseOf run of
        None \<Rightarrow> None
      | Some r \<Rightarrow> (case body r of None \<Rightarrow> None | Some b \<Rightarrow> fieldOf name b))"

fun embeddingCalls :: "effect list \<Rightarrow> embeddingRequest list" where
  "embeddingCalls [] = []"
| "embeddingCalls (EmbeddingsCreate q # es) = q # embeddingCalls es"
| "embeddingCalls (_ # es) = embeddingCalls es"

fun convexActions :: "effect list \<Rightarrow> searchArgs list" where
  "convexActions [] = []"
| "convexActions (ConvexAction _ a # es) = a # convexActions es"
| "convexActions (_ # es) = convexActions es"

fun traceUpdates :: "effect list \<Rightarrow> json list" where
  "traceUpdates [] = []"
| "traceUpdates (TraceUpdate j # es) = j # traceUpdates es"
| "traceUpdates (_ # es) = traceUpdates es"

fun vectorQueries :: "convexCall list \<Rightarrow> vectorQuery list" where
  "vectorQueries [] = []"
| "vectorQueries (VectorSearch _ _ q # cs) = q # vectorQueries cs"
| "vectorQueries (_ # cs) = vectorQueries cs"

fun documentLookups :: "convexCall list \<Rightarrow> string list" where
  "documentLookups [] = []"
| "documentLookups (RunQuery _ i # cs) = i # documentLookups cs"
| "documentLookups (_ # cs) = documentLookups cs"

section \<open>Sample inputs\<close>

text \<open>
  The sentinel sentence as the specification quotes it; the handler looks for
  \<^const>\<open>sentinel\<close>, its first clause.
\<close>

definition spec_sentinel_sentence :: string where
  \<open>spec_sentinel_sentence =
     ''Sorry, I don't know a movie at the moment. Lets have another go with the questions from the previous section.''\<close>

text \<open>
  Two participants and 120 minutes, sent from the default development origin; a store
  with three matches, the second without a document, the third below the threshold.
\<close>

definition sample_env :: env where
  "sample_env = \<lparr>ALLOWED_ORIGINS = None\<rparr>"

definition sample_data :: requestData where
  "sample_data =
     \<lparr>movieSetUpPreferences = \<lparr>numberOfPeople = ''2'', time = ''120 minutes''\<rparr>,
      peopleResponses =
        [\<lparr>userResponses = ''I like action movies'',
          stringifiedQueryAndResponses = ''Q: Genre? A: Action movies''\<rparr>,
         \<lparr>userResponses = ''I like comedies'',
          stringifiedQueryAndResponses = ''Q: Genre? A: Comedies''\<rparr>]\<rparr>"

definition sample_request :: "string \<Rightarrow> string option \<Rightarrow> request" where
  "sample_request m orig = \<lparr>method = m, origin = orig, json_body = Some sample_data\<rparr>"

definition sample_matches :: "vectorMatch list" where
  "sample_matches =
     [\<lparr>vm_id = ''m1'', vm_score = 0.9\<rparr>, \<lparr>vm_id = ''m2'', vm_score = 0.5\<rparr>,
      \<lparr>vm_id = ''m3'', vm_score = 0.1\<rparr>]"

definition sample_ctx :: convexCtx where
  "sample_ctx =
     \<lparr>vectorSearch = (\<lambda>table index query. Inr sample_matches),
      db = [''m1'' \<mapsto> \<lparr>doc_content = ''Alien (1979)'', doc_embedding = []\<rparr>]\<rparr>"

definition sample_candidates :: "MovieSearchResult list" where
  "sample_candidates =
     [\<lparr>score = 0.9, id' = ''m1'', content = ''Alien (1979)''\<rparr>,
      \<lparr>score = 0.5, id' = ''m2'', content = []\<rparr>]"

definition sample_completion :: "string option \<Rightarrow> chatCompletion" where
  "sample_completion generated =
     \<lparr>choices = [\<lparr>message_content = generated\<rparr>], chat_usage = None\<rparr>"

definition sample_services :: "string option \<Rightarrow> services" where
  "sample_services generated =
     \<lparr>embeddings_create = (\<lambda>q. Inr [[0.1, 0.2]]),
      convex = sample_ctx,
      chat_completions_create = (\<lambda>q. Inr (sample_completion generated))\<rparr>"

text \<open>The same collaborators with one of the three remote calls throwing.\<close>

definition embedding_down :: services where
  "embedding_down = (sample_services None)\<lparr>embeddings_create := (\<lambda>q. Inl ''connect timeout'')\<rparr>"

definition search_down :: services where
  "search_down = (sample_services None)
     \<lparr>convex := sample_ctx\<lparr>vectorSearch := (\<lambda>table index query. Inl ''connect timeout'')\<rparr>\<rparr>"

definition chat_down :: services where
  "chat_down = (sample_services None)
     \<lparr>chat_completions_create := (\<lambda>q. Inl ''connect timeout'')\<rparr>"

definition successFlags :: "effect list \<Rightarrow> json option list" where
  "successFlags es =
     map (\<lambda>u. case fieldOf ''metadata'' u of None \<Rightarrow> None | Some m \<Rightarrow> fieldOf ''success'' m)
       (traceUpdates es)"

text \<open>The chat service answering a completion without any choice.\<close>

definition no_choice :: services where
  "no_choice = (sample_services None)
     \<lparr>chat_completions_create := (\<lambda>q. Inr \<lparr>choices = [], chat_usage = None\<rparr>)\<rparr>"

section \<open>Properties of the metrics\<close>

lemma fold_max_Max: "fold max ss (s::real) = Max (set (s # ss))"
  using Max.set_eq_fold [of s ss] by simp

lemma fold_min_Min: "fold min ss (s::real) = Min (set (s # ss))"
  using Min.set_eq_fold [of s ss] by simp

lemma calculateTopScore_is_Max:
  "results \<noteq> [] \<Longrightarrow> calculateTopScore results = Max (score ` set results)"
  by (cases results) (simp_all add: calculateTopScore_def fold_max_Max)

lemma calculateMinScore_is_Min:
  "results \<noteq> [] \<Longrightarrow> calculateMinScore results = Min (score ` set results)"
  by (cases results) (simp_all add: calculateMinScore_def fold_min_Min)

lemma foldl_plus_score:
  "foldl (\<lambda>acc r. acc + score r) a results = a + sum_list (map score results)"
  by (induction results arbitrary: a) simp_all

lemma calculateAverageScore_is_mean:
  "results \<noteq> [] \<Longrightarrow>
   calculateAverageScore results = sum_list (map score results) / real (length results)"
  by (simp add: calculateAverageScore_def foldl_plus_score)

text \<open>
  C6. Each score statistic is 0 on the empty candidate list; on candidates with the
  scores 0.9, 0.5, 0.3 the top score is 0.9, the minimum 0.3 and the average is the mean
  17/30, which is 0.5667 up to rounding at the fourth decimal.
\<close>

theorem score_statistics:
  "calculateTopScore ([] :: scored list) = 0
   \<and> calculateAverageScore ([] :: scored list) = 0
   \<and> calculateMinScore ([] :: scored list) = 0
   \<and> calculateTopScore [\<lparr>score = 0.9\<rparr>, \<lparr>score = 0.5\<rparr>, \<lparr>score = 0.3\<rparr>] = 0.9
   \<and> calculateMinScore [\<lparr>score = 0.9\<rparr>, \<lparr>score = 0.5\<rparr>, \<lparr>score = 0.3\<rparr>] = 0.3
   \<and> calculateAverageScore [\<lparr>score = 0.9\<rparr>, \<lparr>score = 0.5\<rparr>, \<lparr>score = 0.3\<rparr>] = (0.9 + 0.5 + 0.3) / 3
   \<and> \<bar>calculateAverageScore [\<lparr>score = 0.9\<rparr>, \<lparr>score = 0.5\<rparr>, \<lparr>score = 0.3\<rparr>] - 0.5667\<bar> < 0.00005"
  by (simp add: calculateTopScore_def calculateMinScore_def calculateAverageScore_def)

lemma calculateCost_own:
  "pricing model = RatesObj r \<Longrightarrow>
   calculateCost p c model = num_plus (num_times p (Num (input r))) (num_times c (Num (output r)))"
  by (simp add: calculateCost_def)

lemma calculateCost_fallback:
  "model \<noteq> ''gpt-4o-mini'' \<Longrightarrow> model \<noteq> ''text-embedding-3-small'' \<Longrightarrow>
   model \<notin> set objectPrototypeKeys \<Longrightarrow>
   calculateCost p c model = calculateCost p c ''gpt-4o-mini''"
  by (simp add: calculateCost_def pricing_def)

lemma calculateCost_gpt_4o_mini:
  "calculateCost (Num p) (Num c) ''gpt-4o-mini'' = Num (p * (0.15 / 1000000) + c * (0.6 / 1000000))"
  by (simp add: calculateCost_def pricing_def)

text \<open>
  C7. The cost is \<open>promptTokens * input + completionTokens * output\<close> at the rates of the
  model, 1000 prompt and 500 completion tokens on gpt-4o-mini cost 0.00045, and a name
  the table does not list is meant to get the gpt-4o-mini rates through the \<^verbatim>\<open>||\<close> of
  the source. The table is an object literal, so the name \<^verbatim>\<open>constructor\<close> reads a member
  of \<^verbatim>\<open>Object.prototype\<close>: it is truthy, the fallback is skipped, and the cost is NaN.
\<close>

theorem calculateCost_inherited_name:
  "calculateCost (Num 1000) (Num 500) ''gpt-4o-mini'' = Num 0.00045
   \<and> calculateCost (Num 1000) (Num 500) ''some-other-model'' = Num 0.00045
   \<and> calculateCost (Num 1000) (Num 500) ''constructor'' = NaN"
  by (simp add: calculateCost_def pricing_def objectPrototypeKeys_def)

section \<open>Properties of the handler\<close>

subsection \<open>Strings\<close>

lemma startsWith_iff: "startsWith hay needle \<longleftrightarrow> (\<exists>post. hay = needle @ post)"
  by (induction hay needle rule: startsWith.induct) auto

lemma includes_str_iff:
  "includes_str hay needle \<longleftrightarrow> (\<exists>pre post. hay = pre @ needle @ post)"
proof (induction hay)
  case Nil
  then show ?case by auto
next
  case (Cons h hs)
  have "(\<exists>pre post. h # hs = pre @ needle @ post)
        \<longleftrightarrow> (\<exists>post. h # hs = needle @ post) \<or> (\<exists>pre post. hs = pre @ needle @ post)"
  proof
    assume "\<exists>pre post. h # hs = pre @ needle @ post"
    then obtain pre post where eq: "h # hs = pre @ needle @ post" by blast
    show "(\<exists>post. h # hs = needle @ post) \<or> (\<exists>pre post. hs = pre @ needle @ post)"
    proof (cases pre)
      case Nil
      with eq show ?thesis by auto
    next
      case (Cons p ps)
      with eq have "hs = ps @ needle @ post" by simp
      then show ?thesis by blast
    qed
  next
    assume "(\<exists>post. h # hs = needle @ post) \<or> (\<exists>pre post. hs = pre @ needle @ post)"
    then show "\<exists>pre post. h # hs = pre @ needle @ post"
    proof
      assume "\<exists>post. h # hs = needle @ post"
      then obtain post where "h # hs = [] @ needle @ post" by auto
      then show ?thesis by blast
    next
      assume "\<exists>pre post. hs = pre @ needle @ post"
      then obtain pre post where "h # hs = (h # pre) @ needle @ post" by auto
      then show ?thesis by blast
    qed
  qed
  with Cons show ?case by (simp add: startsWith_iff)
qed

lemma join_Cons: "xs \<noteq> [] \<Longrightarrow> join sep (x # xs) = x @ sep @ join sep xs"
  by (cases xs) simp_all

subsection \<open>Observations pass through earlier effects\<close>

lemma snd_preceded: "snd (preceded es run) = snd run"
  by (simp add: preceded_def)

lemma fst_preceded: "fst (preceded es run) = es @ fst run"
  by (simp add: preceded_def)

lemma statusOf_cong: "snd a = snd b \<Longrightarrow> statusOf a = statusOf b"
  by (simp add: statusOf_def responseOf_def)

lemma headerOf_cong: "snd a = snd b \<Longrightarrow> headerOf name a = headerOf name b"
  by (simp add: headerOf_def responseOf_def)

lemma bodyField_cong: "snd a = snd b \<Longrightarrow> bodyField name a = bodyField name b"
  by (simp add: bodyField_def responseOf_def)

lemma statusOf_preceded: "statusOf (preceded es run) = statusOf run"
  by (rule statusOf_cong) (rule snd_preceded)

lemma bodyField_preceded: "bodyField name (preceded es run) = bodyField name run"
  by (rule bodyField_cong) (rule snd_preceded)

lemma embeddingCalls_append: "embeddingCalls (xs @ ys) = embeddingCalls xs @ embeddingCalls ys"
  by (induction xs rule: embeddingCalls.induct) simp_all

lemma convexActions_append: "convexActions (xs @ ys) = convexActions xs @ convexActions ys"
  by (induction xs rule: convexActions.induct) simp_all

lemma traceUpdates_append: "traceUpdates (xs @ ys) = traceUpdates xs @ traceUpdates ys"
  by (induction xs rule: traceUpdates.induct) simp_all

subsection \<open>Origin policy\<close>

lemma corsHeaders_disallowed:
  "\<not> isOriginAllowed orig (getAllowedOrigins e) \<Longrightarrow>
   map_of (corsHeaders orig e) ''Access-Control-Allow-Origin'' = Some ''''"
  by (auto simp add: corsHeaders_def split: option.splits)

lemma sample_origin_allowed:
  "isOriginAllowed (Some ''http://localhost:5173'') (getAllowedOrigins sample_env)"
  by (simp add: isOriginAllowed_def getAllowedOrigins_def sample_env_def)

lemma absent_origin_disallowed: "\<not> isOriginAllowed None allowed"
  by (simp add: isOriginAllowed_def)

text \<open>
  C1, as stated: a request without an allowed origin is answered 403 whatever its
  method. A preflight request without an Origin header is answered 204: the handler
  answers \<^verbatim>\<open>OPTIONS\<close> before it looks at the origin.
\<close>

theorem origin_gate_counterexample:
  "\<not> isOriginAllowed (origin (sample_request ''OPTIONS'' None)) (getAllowedOrigins sample_env)
   \<and> statusOf (fetch (sample_request ''OPTIONS'' None) sample_env (sample_services None)) = Some 204
   \<and> statusOf (fetch (sample_request ''OPTIONS'' None) sample_env (sample_services None)) \<noteq> Some 403"
  by (simp add: fetch_def sample_request_def statusOf_def responseOf_def isOriginAllowed_def)

text \<open>
  C1, amended: a request whose origin is absent or not in the allow-list runs no remote
  call and no trace, its response has an empty \<^verbatim>\<open>Access-Control-Allow-Origin\<close> header,
  and its status is 403 with the body \<^verbatim>\<open>{error: 'Origin not allowed'}\<close> for every method
  but \<^verbatim>\<open>OPTIONS\<close>, for which it is the 204 of the preflight answer, without a body.
\<close>

theorem origin_gate:
  assumes "\<not> isOriginAllowed (origin req) (getAllowedOrigins e)"
  shows "fst (fetch req e sv) = []
         \<and> headerOf ''Access-Control-Allow-Origin'' (fetch req e sv) = Some ''''
         \<and> statusOf (fetch req e sv) = Some (if method req = ''OPTIONS'' then 204 else 403)
         \<and> bodyField ''error'' (fetch req e sv)
             = (if method req = ''OPTIONS'' then None else Some (JStr ''Origin not allowed''))
         \<and> map_option body (responseOf (fetch req e sv))
             = Some (if method req = ''OPTIONS'' then None
                     else Some (JObj [(''error'', JStr ''Origin not allowed'')]))"
  using assms corsHeaders_disallowed [OF assms]
  by (simp add: fetch_def statusOf_def headerOf_def bodyField_def responseOf_def)

theorem origin_gate_witness:
  "fst (fetch (sample_request ''POST'' (Some ''https://elsewhere.example'')) sample_env
          (sample_services None)) = []
   \<and> headerOf ''Access-Control-Allow-Origin''
        (fetch (sample_request ''POST'' (Some ''https://elsewhere.example'')) sample_env
          (sample_services None)) = Some ''''
   \<and> statusOf (fetch (sample_request ''POST'' (Some ''https://elsewhere.example'')) sample_env
          (sample_services None)) = Some 403
   \<and> bodyField ''error''
        (fetch (sample_request ''POST'' (Some ''https://elsewhere.example'')) sample_env
          (sample_services None)) = Some (JStr ''Origin not allowed'')
   \<and> map_option body (responseOf
        (fetch (sample_request ''POST'' (Some ''https://elsewhere.example'')) sample_env
          (sample_services None))) = Some (Some (JObj [(''error'', JStr ''Origin not allowed'')]))
   \<and> statusOf (fetch (sample_request ''OPTIONS'' (Some ''https://elsewhere.example''))
        sample_env (sample_services None)) = Some 204
   \<and> map_option body (responseOf
        (fetch (sample_request ''OPTIONS'' (Some ''https://elsewhere.example'')) sample_env
          (sample_services None))) = Some None"
proof -
  have denied: "\<not> isOriginAllowed (origin (sample_request m (Some ''https://elsewhere.example'')))
      (getAllowedOrigins sample_env)" for m
    by (simp add: sample_request_def isOriginAllowed_def getAllowedOrigins_def sample_env_def)
  have post: "method (sample_request ''POST'' (Some ''https://elsewhere.example'')) \<noteq> ''OPTIONS''"
    by (simp add: sample_request_def)
  have options: "method (sample_request ''OPTIONS'' (Some ''https://elsewhere.example'')) = ''OPTIONS''"
    by (simp add: sample_request_def)
  show ?thesis
    using origin_gate [OF denied, of "''POST''" "sample_services None"]
      origin_gate [OF denied, of "''OPTIONS''" "sample_services None"] post options
    by simp
qed

subsection \<open>The path of a request through the stages\<close>

lemma fetch_pipeline:
  assumes "method req = ''POST''" "isOriginAllowed (origin req) (getAllowedOrigins e)"
    "json_body req = Some rd"
  shows "fetch req e sv = pipeline sv (corsHeaders (origin req) e) rd"
  using assms by (simp add: fetch_def)

lemma pipeline_search:
  assumes "embeddings_create sv (embeddingRequestOf rd) = Inr (emb # es)"
  shows "snd (pipeline sv h rd) = snd (searchStage sv h rd emb (embeddingCost rd))"
  using assms by (simp add: pipeline_def Let_def snd_preceded)

lemma searchStage_generation:
  assumes "snd (searchMovies (convex sv) (searchArgsOf emb)) = Inr matched"
  shows "snd (searchStage sv h rd emb c) = snd (generationStage sv h rd matched c)"
  using assms by (simp add: searchStage_def Let_def snd_preceded)

lemma generationStage_success:
  assumes "chat_completions_create sv (chatRequestOf rd matched) = Inr resp"
    "choices resp = first # others"
  shows "snd (generationStage sv h rd matched c)
         = snd (generationSuccess h matched resp first (tokens resp total_tokens)
             (num_plus c (calculateCost (Num (real (tokens resp prompt_tokens)))
                (Num (real (tokens resp completion_tokens))) ''gpt-4o-mini'')))"
  using assms by (simp add: generationStage_def Let_def snd_preceded)

lemma fetch_generation:
  assumes "method req = ''POST''" "isOriginAllowed (origin req) (getAllowedOrigins e)"
    "json_body req = Some rd"
    "embeddings_create sv (embeddingRequestOf rd) = Inr (emb # es)"
    "snd (searchMovies (convex sv) (searchArgsOf emb)) = Inr matched"
    "chat_completions_create sv (chatRequestOf rd matched) = Inr resp"
    "choices resp = first # others"
  shows "snd (fetch req e sv)
         = snd (generationSuccess (corsHeaders (origin req) e) matched resp first
             (tokens resp total_tokens)
             (num_plus (embeddingCost rd) (calculateCost (Num (real (tokens resp prompt_tokens)))
                (Num (real (tokens resp completion_tokens))) ''gpt-4o-mini'')))"
  using assms
  by (simp add: fetch_pipeline pipeline_search searchStage_generation generationStage_success)

lemma generationSuccess_observed:
  "statusOf (generationSuccess h matched resp first t c) = Some 200"
  "bodyField ''noMatchFromLLM'' (generationSuccess h matched resp first t c)
     = Some (JBool (noMatchFromLLM (makeResponseObject matched (message_content first))))"
  "bodyField ''content'' (generationSuccess h matched resp first t c)
     = Some (JStr (ro_content (makeResponseObject matched (message_content first))))"
  "bodyField ''movieRecommendations'' (generationSuccess h matched resp first t c)
     = Some (recommendations_json
         (movieRecommendations (makeResponseObject matched (message_content first))))"
  by (simp_all add: generationSuccess_def Let_def statusOf_def bodyField_def responseOf_def)

lemma sample_search:
  "snd (searchMovies (convex (sample_services g)) (searchArgsOf [0.1, 0.2])) = Inr sample_candidates"
  by (simp add: searchMovies_def sample_services_def sample_ctx_def searchArgsOf_def
      sample_candidates_def getMovie_def sample_matches_def)

lemma sample_generation:
  "snd (fetch (sample_request ''POST'' (Some ''http://localhost:5173'')) sample_env
          (sample_services g))
   = snd (generationSuccess
            (corsHeaders (Some ''http://localhost:5173'') sample_env) sample_candidates
            (sample_completion g) \<lparr>message_content = g\<rparr> 0
            (num_plus (embeddingCost sample_data) (calculateCost (Num 0) (Num 0) ''gpt-4o-mini'')))"
proof -
  have "snd (fetch (sample_request ''POST'' (Some ''http://localhost:5173'')) sample_env
          (sample_services g))
     = snd (generationSuccess
            (corsHeaders (origin (sample_request ''POST'' (Some ''http://localhost:5173''))) sample_env)
            sample_candidates (sample_completion g) \<lparr>message_content = g\<rparr>
            (tokens (sample_completion g) total_tokens)
            (num_plus (embeddingCost sample_data)
               (calculateCost (Num (real (tokens (sample_completion g) prompt_tokens)))
                  (Num (real (tokens (sample_completion g) completion_tokens))) ''gpt-4o-mini'')))"
  proof (rule fetch_generation)
    show "method (sample_request ''POST'' (Some ''http://localhost:5173'')) = ''POST''"
      by (simp add: sample_request_def)
    show "isOriginAllowed (origin (sample_request ''POST'' (Some ''http://localhost:5173'')))
            (getAllowedOrigins sample_env)"
      by (simp add: sample_request_def sample_origin_allowed)
    show "json_body (sample_request ''POST'' (Some ''http://localhost:5173'')) = Some sample_data"
      by (simp add: sample_request_def)
    show "embeddings_create (sample_services g) (embeddingRequestOf sample_data)
            = Inr ([0.1, 0.2] # [])"
      by (simp add: sample_services_def)
    show "snd (searchMovies (convex (sample_services g)) (searchArgsOf [0.1, 0.2]))
            = Inr sample_candidates"
      by (rule sample_search)
    show "chat_completions_create (sample_services g) (chatRequestOf sample_data sample_candidates)
            = Inr (sample_completion g)"
      by (simp add: sample_services_def)
    show "choices (sample_completion g) = \<lparr>message_content = g\<rparr> # []"
      by (simp add: sample_completion_def)
  qed
  then show ?thesis
    by (simp add: sample_request_def tokens_def sample_completion_def)
qed

subsection \<open>Classification of the generated text\<close>

lemma includes_sentinel_of_sentence: "includes_str spec_sentinel_sentence sentinel"
  by (simp add: sentinel_def spec_sentinel_sentence_def)

lemma includes_str_trans:
  "includes_str a b \<Longrightarrow> includes_str b c \<Longrightarrow> includes_str a c"
proof -
  assume "includes_str a b" "includes_str b c"
  then obtain p q r s where "a = p @ b @ q" "b = r @ c @ s"
    unfolding includes_str_iff by blast
  then have "a = (p @ r) @ c @ (s @ q)" by simp
  then show ?thesis unfolding includes_str_iff by blast
qed

lemma sentence_implies_noMatch:
  "includes_str t spec_sentinel_sentence \<Longrightarrow>
   noMatchFromLLM (makeResponseObject matched (Some t))"
  using includes_str_trans [OF _ includes_sentinel_of_sentence]
  by (simp add: makeResponseObject_def)

text \<open>
  C2, as stated: the result is a no-match exactly when the generated text contains the
  whole sentinel sentence. A text that is only the first clause of the sentence does not
  contain the sentence and is classified as a no-match.
\<close>

theorem noMatch_classification_counterexample:
  \<open>bodyField ''noMatchFromLLM''
     (fetch (sample_request ''POST'' (Some ''http://localhost:5173'')) sample_env
        (sample_services (Some ''Sorry, I don't know a movie at the moment'')))
     = Some (JBool True)
   \<and> \<not> includes_str ''Sorry, I don't know a movie at the moment'' spec_sentinel_sentence\<close>
proof -
  have \<open>bodyField ''noMatchFromLLM''
     (fetch (sample_request ''POST'' (Some ''http://localhost:5173'')) sample_env
        (sample_services (Some ''Sorry, I don't know a movie at the moment'')))
     = Some (JBool True)\<close>
    by (simp add: bodyField_cong [OF sample_generation] generationSuccess_observed
        makeResponseObject_def sentinel_def)
  moreover have \<open>\<not> includes_str ''Sorry, I don't know a movie at the moment'' spec_sentinel_sentence\<close>
    by (simp add: spec_sentinel_sentence_def)
  ultimately show ?thesis by simp
qed

text \<open>
  C2, amended: for every successful generation call the result is a no-match exactly
  when the generated text contains \<^verbatim>\<open>Sorry, I don't know a movie at the moment\<close>, the
  first clause of the sentinel sentence. The recommendations are null in that case and
  only then; otherwise they are the whole retrieved candidate list and the content is
  the generated text (the empty string when the completion carries no text).
\<close>

theorem noMatch_classification:
  assumes "method req = ''POST''" "isOriginAllowed (origin req) (getAllowedOrigins e)"
    "json_body req = Some rd"
    "embeddings_create sv (embeddingRequestOf rd) = Inr (emb # es)"
    "snd (searchMovies (convex sv) (searchArgsOf emb)) = Inr matched"
    "chat_completions_create sv (chatRequestOf rd matched) = Inr resp"
    "choices resp = first # others"
  shows "statusOf (fetch req e sv) = Some 200
    \<and> bodyField ''noMatchFromLLM'' (fetch req e sv)
        = Some (JBool (\<exists>t. message_content first = Some t \<and> includes_str t sentinel))
    \<and> bodyField ''movieRecommendations'' (fetch req e sv)
        = Some (if \<exists>t. message_content first = Some t \<and> includes_str t sentinel
                then JNull else JArr (map movie_json matched))
    \<and> ((\<exists>t. message_content first = Some t \<and> includes_str t sentinel)
        \<or> bodyField ''content'' (fetch req e sv)
            = Some (JStr (case message_content first of None \<Rightarrow> '''' | Some t \<Rightarrow> t)))
    \<and> (bodyField ''movieRecommendations'' (fetch req e sv) = Some JNull
        \<longleftrightarrow> bodyField ''noMatchFromLLM'' (fetch req e sv) = Some (JBool True))"
proof -
  note path = fetch_generation [OF assms]
  show ?thesis
    by (cases "message_content first")
      (simp_all add: statusOf_cong [OF path] bodyField_cong [OF path]
        generationSuccess_observed makeResponseObject_def recommendations_json_def)
qed

theorem noMatch_classification_witness:
  "statusOf (fetch (sample_request ''POST'' (Some ''http://localhost:5173'')) sample_env
        (sample_services (Some ''Watch Alien.''))) = Some 200
   \<and> bodyField ''noMatchFromLLM''
        (fetch (sample_request ''POST'' (Some ''http://localhost:5173'')) sample_env
           (sample_services (Some ''Watch Alien.''))) = Some (JBool False)
   \<and> bodyField ''movieRecommendations''
        (fetch (sample_request ''POST'' (Some ''http://localhost:5173'')) sample_env
           (sample_services (Some ''Watch Alien.''))) = Some (JArr (map movie_json sample_candidates))
   \<and> bodyField ''content''
        (fetch (sample_request ''POST'' (Some ''http://localhost:5173'')) sample_env
           (sample_services (Some ''Watch Alien.''))) = Some (JStr ''Watch Alien.'')"
proof -
  let ?req = "sample_request ''POST'' (Some ''http://localhost:5173'')"
  let ?sv = "sample_services (Some ''Watch Alien.'')"
  have 1: "method ?req = ''POST''" by (simp add: sample_request_def)
  have 2: "isOriginAllowed (origin ?req) (getAllowedOrigins sample_env)"
    by (simp add: sample_request_def sample_origin_allowed)
  have 3: "json_body ?req = Some sample_data" by (simp add: sample_request_def)
  have 4: "embeddings_create ?sv (embeddingRequestOf sample_data) = Inr ([0.1, 0.2] # [])"
    by (simp add: sample_services_def)
  have 5: "snd (searchMovies (convex ?sv) (searchArgsOf [0.1, 0.2])) = Inr sample_candidates"
    by (rule sample_search)
  have 6: "chat_completions_create ?sv (chatRequestOf sample_data sample_candidates)
             = Inr (sample_completion (Some ''Watch Alien.''))"
    by (simp add: sample_services_def)
  have 7: "choices (sample_completion (Some ''Watch Alien.''))
             = \<lparr>message_content = Some ''Watch Alien.''\<rparr> # []"
    by (simp add: sample_completion_def)
  have plain: "\<not> includes_str ''Watch Alien.'' sentinel"
    by (simp add: sentinel_def)
  show ?thesis
    using noMatch_classification [OF 1 2 3 4 5 6 7] plain by simp
qed

text \<open>Only the last branch of the generation stage writes the no-match flag.\<close>

lemma errorResponse_noMatch:
  "bodyField ''noMatchFromLLM'' (es, errorResponse h err details) = None"
  by (simp add: errorResponse_def bodyField_def responseOf_def)

lemma generationSuccess_noMatch:
  assumes "bodyField ''noMatchFromLLM'' (generationSuccess h matched resp first t c)
           = Some (JBool True)"
  shows "statusOf (generationSuccess h matched resp first t c) = Some 200
    \<and> bodyField ''content'' (generationSuccess h matched resp first t c) = Some (JStr '''')
    \<and> bodyField ''movieRecommendations'' (generationSuccess h matched resp first t c) = Some JNull"
  using assms
  by (simp add: generationSuccess_observed makeResponseObject_def recommendations_json_def
      split: if_splits)

lemma generationStage_noMatch:
  assumes "bodyField ''noMatchFromLLM'' (generationStage sv h rd matched c) = Some (JBool True)"
  shows "statusOf (generationStage sv h rd matched c) = Some 200
    \<and> bodyField ''content'' (generationStage sv h rd matched c) = Some (JStr '''')
    \<and> bodyField ''movieRecommendations'' (generationStage sv h rd matched c) = Some JNull"
  using assms
  by (auto simp add: generationStage_def Let_def statusOf_preceded bodyField_preceded
      generationFailure_def errorResponse_noMatch dest: generationSuccess_noMatch
      split: sum.splits list.splits)

lemma searchStage_noMatch:
  assumes "bodyField ''noMatchFromLLM'' (searchStage sv h rd emb c) = Some (JBool True)"
  shows "statusOf (searchStage sv h rd emb c) = Some 200
    \<and> bodyField ''content'' (searchStage sv h rd emb c) = Some (JStr '''')
    \<and> bodyField ''movieRecommendations'' (searchStage sv h rd emb c) = Some JNull"
  using assms
  by (auto simp add: searchStage_def Let_def statusOf_preceded bodyField_preceded
      errorResponse_noMatch dest: generationStage_noMatch split: sum.splits)

lemma pipeline_noMatch:
  assumes "bodyField ''noMatchFromLLM'' (pipeline sv h rd) = Some (JBool True)"
  shows "statusOf (pipeline sv h rd) = Some 200
    \<and> bodyField ''content'' (pipeline sv h rd) = Some (JStr '''')
    \<and> bodyField ''movieRecommendations'' (pipeline sv h rd) = Some JNull"
  using assms
  by (auto simp add: pipeline_def Let_def statusOf_preceded bodyField_preceded
      embeddingFailure_def errorResponse_noMatch dest: searchStage_noMatch
      split: sum.splits list.splits)

text \<open>
  C8. Whenever the body of a response carries \<^verbatim>\<open>noMatchFromLLM = true\<close>, the response
  is the 200 of a finished pipeline, its content is the empty string and its
  recommendations are null: the generated text is not returned.
\<close>

theorem noMatch_discards_text:
  assumes "bodyField ''noMatchFromLLM'' (fetch req e sv) = Some (JBool True)"
  shows "statusOf (fetch req e sv) = Some 200
    \<and> bodyField ''content'' (fetch req e sv) = Some (JStr '''')
    \<and> bodyField ''movieRecommendations'' (fetch req e sv) = Some JNull"
proof (cases "method req = ''POST'' \<and> isOriginAllowed (origin req) (getAllowedOrigins e)")
  case True
  show ?thesis
  proof (cases "json_body req")
    case None
    with True assms show ?thesis
      by (simp add: fetch_def bodyField_def responseOf_def)
  next
    case (Some rd)
    with True have "fetch req e sv = pipeline sv (corsHeaders (origin req) e) rd"
      by (simp add: fetch_pipeline)
    with assms pipeline_noMatch show ?thesis by simp
  qed
next
  case False
  with assms show ?thesis
    by (auto simp add: fetch_def Let_def bodyField_def responseOf_def split: if_splits)
qed

theorem noMatch_discards_text_witness:
  "bodyField ''noMatchFromLLM''
     (fetch (sample_request ''POST'' (Some ''http://localhost:5173'')) sample_env
        (sample_services (Some spec_sentinel_sentence))) = Some (JBool True)
   \<and> statusOf
     (fetch (sample_request ''POST'' (Some ''http://localhost:5173'')) sample_env
        (sample_services (Some spec_sentinel_sentence))) = Some 200
   \<and> bodyField ''content''
     (fetch (sample_request ''POST'' (Some ''http://localhost:5173'')) sample_env
        (sample_services (Some spec_sentinel_sentence))) = Some (JStr '''')
   \<and> bodyField ''movieRecommendations''
     (fetch (sample_request ''POST'' (Some ''http://localhost:5173'')) sample_env
        (sample_services (Some spec_sentinel_sentence))) = Some JNull"
proof -
  have said: "bodyField ''noMatchFromLLM''
     (fetch (sample_request ''POST'' (Some ''http://localhost:5173'')) sample_env
        (sample_services (Some spec_sentinel_sentence))) = Some (JBool True)"
    by (simp add: bodyField_cong [OF sample_generation] generationSuccess_observed
        makeResponseObject_def includes_sentinel_of_sentence)
  show ?thesis
    using noMatch_discards_text [OF said] said by simp
qed

text \<open>
  A completion whose first message has no content, or the empty string as content, is
  answered 200 with \<^verbatim>\<open>noMatchFromLLM = false\<close>, the whole retrieved candidate list and
  the empty string as content.
\<close>

theorem empty_generation:
  assumes "method req = ''POST''" "isOriginAllowed (origin req) (getAllowedOrigins e)"
    "json_body req = Some rd"
    "embeddings_create sv (embeddingRequestOf rd) = Inr (emb # es)"
    "snd (searchMovies (convex sv) (searchArgsOf emb)) = Inr matched"
    "chat_completions_create sv (chatRequestOf rd matched) = Inr resp"
    "choices resp = first # others"
    "message_content first = None \<or> message_content first = Some ''''"
  shows "statusOf (fetch req e sv) = Some 200
    \<and> bodyField ''noMatchFromLLM'' (fetch req e sv) = Some (JBool False)
    \<and> bodyField ''movieRecommendations'' (fetch req e sv) = Some (JArr (map movie_json matched))
    \<and> bodyField ''content'' (fetch req e sv) = Some (JStr '''')"
proof -
  note path = fetch_generation [OF assms(1-7)]
  have "\<not> includes_str '''' sentinel" by (simp add: sentinel_def)
  with assms(8) show ?thesis
    by (auto simp add: statusOf_cong [OF path] bodyField_cong [OF path]
        generationSuccess_observed makeResponseObject_def recommendations_json_def)
qed

theorem empty_generation_witness:
  "statusOf (fetch (sample_request ''POST'' (Some ''http://localhost:5173'')) sample_env
        (sample_services None)) = Some 200
   \<and> bodyField ''noMatchFromLLM''
        (fetch (sample_request ''POST'' (Some ''http://localhost:5173'')) sample_env
           (sample_services None)) = Some (JBool False)
   \<and> bodyField ''movieRecommendations''
        (fetch (sample_request ''POST'' (Some ''http://localhost:5173'')) sample_env
           (sample_services None)) = Some (JArr (map movie_json sample_candidates))
   \<and> bodyField ''content''
        (fetch (sample_request ''POST'' (Some ''http://localhost:5173'')) sample_env
           (sample_services None)) = Some (JStr '''')"
proof -
  let ?req = "sample_request ''POST'' (Some ''http://localhost:5173'')"
  let ?sv = "sample_services None"
  have 1: "method ?req = ''POST''" by (simp add: sample_request_def)
  have 2: "isOriginAllowed (origin ?req) (getAllowedOrigins sample_env)"
    by (simp add: sample_request_def sample_origin_allowed)
  have 3: "json_body ?req = Some sample_data" by (simp add: sample_request_def)
  have 4: "embeddings_create ?sv (embeddingRequestOf sample_data) = Inr ([0.1, 0.2] # [])"
    by (simp add: sample_services_def)
  have 5: "snd (searchMovies (convex ?sv) (searchArgsOf [0.1, 0.2])) = Inr sample_candidates"
    by (rule sample_search)
  have 6: "chat_completions_create ?sv (chatRequestOf sample_data sample_candidates)
             = Inr (sample_completion None)"
    by (simp add: sample_services_def)
  have 7: "choices (sample_completion None) = \<lparr>message_content = None\<rparr> # []"
    by (simp add: sample_completion_def)
  have 8: "message_content \<lparr>message_content = None\<rparr> = None
           \<or> message_content \<lparr>message_content = None\<rparr> = Some ''''"
    by simp
  show ?thesis
    by (rule empty_generation [OF 1 2 3 4 5 6 7 8])
qed

text \<open>
  C10. A completion that succeeds without generated text is not to be treated as an
  error. With a first message whose content is null the sample request is answered 200
  with \<^verbatim>\<open>noMatchFromLLM = false\<close>, the candidates and the empty string. With a completion
  that has no choice at all, which the optional chaining of the sentinel test provides
  for, the read of \<^verbatim>\<open>choices[0].message\<close> for the span throws, and the request is
  answered 500 \<^verbatim>\<open>Error creating chat completion\<close>.
\<close>

theorem empty_generation_without_choice:
  "chat_completions_create no_choice (chatRequestOf sample_data sample_candidates)
     = Inr \<lparr>choices = [], chat_usage = None\<rparr>
   \<and> statusOf (fetch (sample_request ''POST'' (Some ''http://localhost:5173'')) sample_env
        no_choice) = Some 500
   \<and> bodyField ''error'' (fetch (sample_request ''POST'' (Some ''http://localhost:5173''))
        sample_env no_choice) = Some (JStr ''Error creating chat completion'')
   \<and> bodyField ''details'' (fetch (sample_request ''POST'' (Some ''http://localhost:5173''))
        sample_env no_choice) = Some (JStr (readOfUndefined ''message''))
   \<and> bodyField ''noMatchFromLLM'' (fetch (sample_request ''POST'' (Some ''http://localhost:5173''))
        sample_env no_choice) = None
   \<and> bodyField ''movieRecommendations''
        (fetch (sample_request ''POST'' (Some ''http://localhost:5173'')) sample_env no_choice)
        = None
   \<and> statusOf (fetch (sample_request ''POST'' (Some ''http://localhost:5173'')) sample_env
        (sample_services None)) = Some 200
   \<and> bodyField ''noMatchFromLLM'' (fetch (sample_request ''POST'' (Some ''http://localhost:5173''))
        sample_env (sample_services None)) = Some (JBool False)"
proof -
  let ?req = "sample_request ''POST'' (Some ''http://localhost:5173'')"
  let ?h = "corsHeaders (Some ''http://localhost:5173'') sample_env"
  have run: "fetch ?req sample_env no_choice = pipeline no_choice ?h sample_data"
    using fetch_pipeline [of ?req sample_env sample_data no_choice]
    by (simp add: sample_request_def sample_origin_allowed)
  have answered: "snd (pipeline no_choice ?h sample_data)
      = errorResponse ?h ''Error creating chat completion'' (readOfUndefined ''message'')"
    by (simp add: pipeline_def searchStage_def searchMovies_def generationStage_def Let_def
        no_choice_def sample_services_def sample_ctx_def snd_preceded generationFailure_def)
  have failed: "statusOf (pipeline no_choice ?h sample_data) = Some 500
     \<and> bodyField ''error'' (pipeline no_choice ?h sample_data)
         = Some (JStr ''Error creating chat completion'')
     \<and> bodyField ''details'' (pipeline no_choice ?h sample_data)
         = Some (JStr (readOfUndefined ''message''))
     \<and> bodyField ''noMatchFromLLM'' (pipeline no_choice ?h sample_data) = None
     \<and> bodyField ''movieRecommendations'' (pipeline no_choice ?h sample_data) = None"
    by (simp add: statusOf_def bodyField_def responseOf_def answered errorResponse_def)
  have null_text: "statusOf (fetch ?req sample_env (sample_services None)) = Some 200
     \<and> bodyField ''noMatchFromLLM'' (fetch ?req sample_env (sample_services None))
         = Some (JBool False)"
    by (simp add: statusOf_cong [OF sample_generation] bodyField_cong [OF sample_generation]
        generationSuccess_observed makeResponseObject_def)
  have call: "chat_completions_create no_choice (chatRequestOf sample_data sample_candidates)
     = Inr \<lparr>choices = [], chat_usage = None\<rparr>"
    by (simp add: no_choice_def sample_services_def)
  from call failed null_text show ?thesis by (simp add: run)
qed

subsection \<open>The embedding request\<close>

lemma embeddingCalls_generationStage:
  "embeddingCalls (fst (generationStage sv h rd matched c)) = []"
  by (simp add: generationStage_def Let_def fst_preceded generationFailure_def spanError_def
      generationSuccess_def split: sum.splits list.splits)

lemma embeddingCalls_searchStage:
  "embeddingCalls (fst (searchStage sv h rd emb c)) = []"
  by (simp add: searchStage_def Let_def fst_preceded spanError_def embeddingCalls_append
      embeddingCalls_generationStage split: sum.splits)

lemma embeddingCalls_pipeline:
  "embeddingCalls (fst (pipeline sv h rd)) = [embeddingRequestOf rd]"
  by (simp add: pipeline_def Let_def fst_preceded spanError_def embeddingFailure_def
      embeddingCalls_append embeddingCalls_searchStage split: sum.splits list.splits)

text \<open>
  C5. A parsed request makes one call to the embedding service, for the model
  \<^verbatim>\<open>text-embedding-3-small\<close>; its input is the available time, a newline, and the
  participants' \<^verbatim>\<open>userResponses\<close> joined with newlines in the order of the request, which
  for a request with at least one participant is the newline-join of the time and those
  answers.
\<close>

theorem embedding_input:
  assumes "method req = ''POST''" "isOriginAllowed (origin req) (getAllowedOrigins e)"
    "json_body req = Some rd"
  shows "embeddingCalls (fst (fetch req e sv))
           = [\<lparr>emb_model = ''text-embedding-3-small'',
               emb_input = time (movieSetUpPreferences rd) @ ''\<newline>''
                             @ join ''\<newline>'' (map userResponses (peopleResponses rd)),
               encoding_format = ''float''\<rparr>]
    \<and> (peopleResponses rd = []
        \<or> map emb_input (embeddingCalls (fst (fetch req e sv)))
            = [join ''\<newline>'' (time (movieSetUpPreferences rd)
                                     # map userResponses (peopleResponses rd))])"
  by (cases "peopleResponses rd")
    (simp_all add: fetch_pipeline [OF assms] embeddingCalls_pipeline embeddingRequestOf_def
      embeddingText_def allParticipantsResponses_def join_Cons)

theorem embedding_input_witness:
  "embeddingCalls (fst (fetch (sample_request ''POST'' (Some ''http://localhost:5173''))
       sample_env (sample_services None)))
   = [\<lparr>emb_model = ''text-embedding-3-small'',
       emb_input = ''120 minutes\<newline>I like action movies\<newline>I like comedies'',
       encoding_format = ''float''\<rparr>]"
proof -
  let ?req = "sample_request ''POST'' (Some ''http://localhost:5173'')"
  have 1: "method ?req = ''POST''" by (simp add: sample_request_def)
  have 2: "isOriginAllowed (origin ?req) (getAllowedOrigins sample_env)"
    by (simp add: sample_request_def sample_origin_allowed)
  have 3: "json_body ?req = Some sample_data" by (simp add: sample_request_def)
  show ?thesis
    using embedding_input [OF 1 2 3, of "sample_services None"]
    by (simp add: sample_data_def)
qed

subsection \<open>Similarity retrieval\<close>

lemma convexActions_generationStage:
  "convexActions (fst (generationStage sv h rd matched c)) = []"
  by (simp add: generationStage_def Let_def fst_preceded generationFailure_def spanError_def
      generationSuccess_def split: sum.splits list.splits)

lemma convexActions_searchStage:
  "convexActions (fst (searchStage sv h rd emb c)) = [searchArgsOf emb]"
  by (simp add: searchStage_def Let_def fst_preceded spanError_def convexActions_append
      convexActions_generationStage split: sum.splits)

lemma convexActions_pipeline:
  assumes "embeddings_create sv (embeddingRequestOf rd) = Inr (emb # es)"
  shows "convexActions (fst (pipeline sv h rd)) = [searchArgsOf emb]"
  using assms
  by (simp add: pipeline_def Let_def fst_preceded convexActions_append convexActions_searchStage)

lemma vectorQueries_lookups: "vectorQueries (map (\<lambda>r. RunQuery name (f r)) rs) = []"
  by (induction rs) simp_all

lemma documentLookups_lookups: "documentLookups (map (\<lambda>r. RunQuery name (f r)) rs) = map f rs"
  by (induction rs) simp_all

lemma searchMovies_query:
  "vectorQueries (fst (searchMovies ctx args))
     = [\<lparr>vector = embedding args, limit = matchCount args\<rparr>]"
  by (simp add: searchMovies_def Let_def vectorQueries_lookups split: sum.splits)

lemma searchMovies_found:
  assumes "vectorSearch ctx ''movies'' ''by_embedding''
             \<lparr>vector = embedding args, limit = matchCount args\<rparr> = Inr results"
  shows "searchMovies ctx args
     = (VectorSearch ''movies'' ''by_embedding'' \<lparr>vector = embedding args, limit = matchCount args\<rparr>
          # map (\<lambda>result. RunQuery ''getMovie'' (vm_id result))
              (filter (\<lambda>result. matchThreshold args \<le> vm_score result) results),
        Inr (map (\<lambda>result.
               \<lparr>score = vm_score result, id' = vm_id result,
                content = (case db ctx (vm_id result) of None \<Rightarrow> '''' | Some doc \<Rightarrow> doc_content doc)\<rparr>)
             (filter (\<lambda>result. matchThreshold args \<le> vm_score result) results)))"
  using assms by (simp add: searchMovies_def Let_def getMovie_def)

text \<open>
  C4. The handler calls the search action once, with threshold 0.2 and count 6. The
  action sends the vector store one query whose limit is \<open>matchCount\<close>; when the store
  answers, the action returns, in the store's order, one candidate for each match whose
  score is at least \<open>matchThreshold\<close> and no other, having looked up the document of
  each of them by id: the candidate has the id and the score of the match and the
  content of the document stored under that id (the empty string when there is none).
  If the store honours the limit, at most \<open>matchCount\<close> candidates are returned.
\<close>

theorem similarity_retrieval:
  assumes "method req = ''POST''" "isOriginAllowed (origin req) (getAllowedOrigins e)"
    "json_body req = Some rd"
    "embeddings_create sv (embeddingRequestOf rd) = Inr (emb # es)"
    "vectorSearch ctx ''movies'' ''by_embedding''
       \<lparr>vector = embedding args, limit = matchCount args\<rparr> = Inr results"
  shows "convexActions (fst (fetch req e sv))
           = [\<lparr>embedding = emb, matchThreshold = 0.2, matchCount = 6\<rparr>]
    \<and> vectorQueries (fst (searchMovies ctx args))
           = [\<lparr>vector = embedding args, limit = matchCount args\<rparr>]
    \<and> (\<exists>movies. snd (searchMovies ctx args) = Inr movies
         \<and> (\<forall>m \<in> set movies. matchThreshold args \<le> score m)
         \<and> map id' movies
             = map vm_id (filter (\<lambda>r. matchThreshold args \<le> vm_score r) results)
         \<and> map score movies
             = map vm_score (filter (\<lambda>r. matchThreshold args \<le> vm_score r) results)
         \<and> map content movies
             = map (\<lambda>r. case db ctx (vm_id r) of None \<Rightarrow> '''' | Some doc \<Rightarrow> doc_content doc)
                 (filter (\<lambda>r. matchThreshold args \<le> vm_score r) results)
         \<and> movies
             = map (\<lambda>r. \<lparr>score = vm_score r, id' = vm_id r,
                          content = (case db ctx (vm_id r) of
                                       None \<Rightarrow> '''' | Some doc \<Rightarrow> doc_content doc)\<rparr>)
                 (filter (\<lambda>r. matchThreshold args \<le> vm_score r) results)
         \<and> documentLookups (fst (searchMovies ctx args)) = map id' movies
         \<and> length movies \<le> length results
         \<and> (real (length results) \<le> matchCount args
              \<longrightarrow> real (length movies) \<le> matchCount args))"
proof -
  let ?kept = "filter (\<lambda>r. matchThreshold args \<le> vm_score r) results"
  let ?candidate = "\<lambda>r. \<lparr>score = vm_score r, id' = vm_id r,
      content = (case db ctx (vm_id r) of None \<Rightarrow> '''' | Some doc \<Rightarrow> doc_content doc)\<rparr>"
  have handler: "convexActions (fst (fetch req e sv))
           = [\<lparr>embedding = emb, matchThreshold = 0.2, matchCount = 6\<rparr>]"
    by (simp add: fetch_pipeline [OF assms(1-3)] convexActions_pipeline [OF assms(4)]
        searchArgsOf_def)
  have "real (length ?kept) \<le> real (length results)" by simp
  then have bound: "real (length results) \<le> matchCount args
      \<longrightarrow> real (length ?kept) \<le> matchCount args"
    by linarith
  have lookups: "documentLookups (map (\<lambda>result. RunQuery ''getMovie'' (vm_id result)) ?kept)
                   = map vm_id ?kept"
    by (rule documentLookups_lookups)
  have result: "snd (searchMovies ctx args) = Inr (map ?candidate ?kept)"
    by (simp add: searchMovies_found [OF assms(5)])
  have calls: "documentLookups (fst (searchMovies ctx args)) = map id' (map ?candidate ?kept)"
    using lookups by (simp add: searchMovies_found [OF assms(5)] comp_def)
  have action: "\<exists>movies. snd (searchMovies ctx args) = Inr movies
         \<and> (\<forall>m \<in> set movies. matchThreshold args \<le> score m)
         \<and> map id' movies = map vm_id ?kept
         \<and> map score movies = map vm_score ?kept
         \<and> map content movies
             = map (\<lambda>r. case db ctx (vm_id r) of None \<Rightarrow> '''' | Some doc \<Rightarrow> doc_content doc) ?kept
         \<and> movies = map ?candidate ?kept
         \<and> documentLookups (fst (searchMovies ctx args)) = map id' movies
         \<and> length movies \<le> length results
         \<and> (real (length results) \<le> matchCount args
              \<longrightarrow> real (length movies) \<le> matchCount args)"
  proof (intro exI conjI)
    show "snd (searchMovies ctx args) = Inr (map ?candidate ?kept)" by (rule result)
    show "\<forall>m \<in> set (map ?candidate ?kept). matchThreshold args \<le> score m" by auto
    show "map id' (map ?candidate ?kept) = map vm_id ?kept" by (simp add: comp_def)
    show "map score (map ?candidate ?kept) = map vm_score ?kept" by (simp add: comp_def)
    show "map content (map ?candidate ?kept)
            = map (\<lambda>r. case db ctx (vm_id r) of None \<Rightarrow> '''' | Some doc \<Rightarrow> doc_content doc) ?kept"
      by (simp add: comp_def)
    show "map ?candidate ?kept = map ?candidate ?kept" by (rule refl)
    show "documentLookups (fst (searchMovies ctx args)) = map id' (map ?candidate ?kept)"
      by (rule calls)
    show "length (map ?candidate ?kept) \<le> length results" by simp
    show "real (length results) \<le> matchCount args
            \<longrightarrow> real (length (map ?candidate ?kept)) \<le> matchCount args"
      using bound by simp
  qed
  from handler searchMovies_query action show ?thesis by blast
qed

theorem similarity_retrieval_witness:
  "convexActions (fst (fetch (sample_request ''POST'' (Some ''http://localhost:5173''))
       sample_env (sample_services None)))
     = [\<lparr>embedding = [0.1, 0.2], matchThreshold = 0.2, matchCount = 6\<rparr>]
   \<and> vectorQueries (fst (searchMovies sample_ctx (searchArgsOf [0.1, 0.2])))
     = [\<lparr>vector = [0.1, 0.2], limit = 6\<rparr>]
   \<and> snd (searchMovies sample_ctx (searchArgsOf [0.1, 0.2]))
     = Inr [\<lparr>score = 0.9, id' = ''m1'', content = ''Alien (1979)''\<rparr>,
            \<lparr>score = 0.5, id' = ''m2'', content = ''''\<rparr>]
   \<and> documentLookups (fst (searchMovies sample_ctx (searchArgsOf [0.1, 0.2])))
     = [''m1'', ''m2'']"
proof -
  let ?req = "sample_request ''POST'' (Some ''http://localhost:5173'')"
  let ?sv = "sample_services None"
  let ?args = "searchArgsOf [0.1, 0.2]"
  have 1: "method ?req = ''POST''" by (simp add: sample_request_def)
  have 2: "isOriginAllowed (origin ?req) (getAllowedOrigins sample_env)"
    by (simp add: sample_request_def sample_origin_allowed)
  have 3: "json_body ?req = Some sample_data" by (simp add: sample_request_def)
  have 4: "embeddings_create ?sv (embeddingRequestOf sample_data) = Inr ([0.1, 0.2] # [])"
    by (simp add: sample_services_def)
  have 5: "vectorSearch sample_ctx ''movies'' ''by_embedding''
       \<lparr>vector = embedding ?args, limit = matchCount ?args\<rparr> = Inr sample_matches"
    by (simp add: sample_ctx_def)
  from similarity_retrieval [OF 1 2 3 4 5] obtain movies where
    handler: "convexActions (fst (fetch ?req sample_env ?sv))
       = [\<lparr>embedding = [0.1, 0.2], matchThreshold = 0.2, matchCount = 6\<rparr>]"
    and query: "vectorQueries (fst (searchMovies sample_ctx ?args))
       = [\<lparr>vector = embedding ?args, limit = matchCount ?args\<rparr>]"
    and result: "snd (searchMovies sample_ctx ?args) = Inr movies"
    and movies: "movies
       = map (\<lambda>r. \<lparr>score = vm_score r, id' = vm_id r,
                    content = (case db sample_ctx (vm_id r) of
                                 None \<Rightarrow> '''' | Some doc \<Rightarrow> doc_content doc)\<rparr>)
           (filter (\<lambda>r. matchThreshold ?args \<le> vm_score r) sample_matches)"
    and lookups: "documentLookups (fst (searchMovies sample_ctx ?args)) = map id' movies"
    by blast
  have "movies = [\<lparr>score = 0.9, id' = ''m1'', content = ''Alien (1979)''\<rparr>,
                  \<lparr>score = 0.5, id' = ''m2'', content = ''''\<rparr>]"
    unfolding movies by (simp add: searchArgsOf_def sample_matches_def sample_ctx_def)
  with handler query result lookups show ?thesis
    by (simp add: searchArgsOf_def)
qed

text \<open>
  C9. When the vector store answers, the action returns a result: a match that is
  retained and whose document lookup yields null becomes a candidate with the match's id
  and score and the empty string as content.
\<close>

theorem missing_document:
  assumes "vectorSearch ctx ''movies'' ''by_embedding''
             \<lparr>vector = embedding args, limit = matchCount args\<rparr> = Inr results"
  shows "\<exists>movies. snd (searchMovies ctx args) = Inr movies
    \<and> length movies = length (filter (\<lambda>r. matchThreshold args \<le> vm_score r) results)
    \<and> (\<forall>r \<in> set results.
          matchThreshold args \<le> vm_score r \<and> getMovie ctx (vm_id r) = None
          \<longrightarrow> \<lparr>score = vm_score r, id' = vm_id r, content = ''''\<rparr> \<in> set movies)"
  by (auto simp add: searchMovies_found [OF assms] getMovie_def image_iff
      intro!: bexI split: option.splits)

theorem missing_document_witness:
  "getMovie sample_ctx ''m2'' = None
   \<and> snd (searchMovies sample_ctx (searchArgsOf [0.1, 0.2]))
       = Inr [\<lparr>score = 0.9, id' = ''m1'', content = ''Alien (1979)''\<rparr>,
              \<lparr>score = 0.5, id' = ''m2'', content = ''''\<rparr>]"
proof -
  have found: "vectorSearch sample_ctx ''movies'' ''by_embedding''
       \<lparr>vector = embedding (searchArgsOf [0.1, 0.2]), limit = matchCount (searchArgsOf [0.1, 0.2])\<rparr>
       = Inr sample_matches"
    by (simp add: sample_ctx_def)
  from missing_document [OF found] obtain movies where
    result: "snd (searchMovies sample_ctx (searchArgsOf [0.1, 0.2])) = Inr movies"
    by blast
  have "snd (searchMovies sample_ctx (searchArgsOf [0.1, 0.2]))
       = Inr [\<lparr>score = 0.9, id' = ''m1'', content = ''Alien (1979)''\<rparr>,
              \<lparr>score = 0.5, id' = ''m2'', content = ''''\<rparr>]"
    by (simp add: searchMovies_def sample_ctx_def searchArgsOf_def getMovie_def sample_matches_def)
  moreover have "getMovie sample_ctx ''m2'' = None"
    by (simp add: getMovie_def sample_ctx_def)
  ultimately show ?thesis using result by simp
qed

subsection \<open>The trace of a failed request\<close>

lemma pipeline_finalized_once:
  "count_list (fst (pipeline sv h rd)) TraceEnd = 1
   \<and> count_list (fst (pipeline sv h rd)) OpikFlush = 1"
  by (simp add: pipeline_def searchStage_def generationStage_def Let_def fst_preceded
      embeddingFailure_def generationFailure_def generationSuccess_def spanError_def
      split: sum.splits list.splits)

lemma generation_failure_flag:
  assumes "chat_completions_create sv (chatRequestOf rd matched) = Inl msg"
  shows "successFlags (fst (generationStage sv h rd matched c)) = [Some (JBool False)]
    \<and> statusOf (generationStage sv h rd matched c) = Some 500
    \<and> bodyField ''error'' (generationStage sv h rd matched c)
        = Some (JStr ''Error creating chat completion'')"
  using assms
  by (simp add: generationStage_def Let_def fst_preceded snd_preceded
      generationFailure_def spanError_def successFlags_def errorResponse_def statusOf_def
      bodyField_def responseOf_def)

text \<open>
  C3. When a remote call throws, the handler answers one 500 that names the stage, and
  has ended and flushed the trace once before. With the sample request: when the chat
  completion throws, the trace update carries \<^verbatim>\<open>success: false\<close>; when the embedding
  call or the vector search throws, the trace update carries no metadata at all.
\<close>

theorem failure_trace_metadata:
  "statusOf (fetch (sample_request ''POST'' (Some ''http://localhost:5173'')) sample_env
      embedding_down) = Some 500
   \<and> bodyField ''error'' (fetch (sample_request ''POST'' (Some ''http://localhost:5173''))
      sample_env embedding_down) = Some (JStr ''Error creating embeddings for userResponses'')
   \<and> count_list (fst (fetch (sample_request ''POST'' (Some ''http://localhost:5173''))
      sample_env embedding_down)) OpikFlush = 1
   \<and> successFlags (fst (fetch (sample_request ''POST'' (Some ''http://localhost:5173''))
      sample_env embedding_down)) = [None]
   \<and> statusOf (fetch (sample_request ''POST'' (Some ''http://localhost:5173'')) sample_env
      search_down) = Some 500
   \<and> bodyField ''error'' (fetch (sample_request ''POST'' (Some ''http://localhost:5173''))
      sample_env search_down) = Some (JStr ''Error matching documents in Convex'')
   \<and> count_list (fst (fetch (sample_request ''POST'' (Some ''http://localhost:5173''))
      sample_env search_down)) OpikFlush = 1
   \<and> successFlags (fst (fetch (sample_request ''POST'' (Some ''http://localhost:5173''))
      sample_env search_down)) = [None]
   \<and> statusOf (fetch (sample_request ''POST'' (Some ''http://localhost:5173'')) sample_env
      chat_down) = Some 500
   \<and> bodyField ''error'' (fetch (sample_request ''POST'' (Some ''http://localhost:5173''))
      sample_env chat_down) = Some (JStr ''Error creating chat completion'')
   \<and> count_list (fst (fetch (sample_request ''POST'' (Some ''http://localhost:5173''))
      sample_env chat_down)) OpikFlush = 1
   \<and> successFlags (fst (fetch (sample_request ''POST'' (Some ''http://localhost:5173''))
      sample_env chat_down)) = [Some (JBool False)]"
proof -
  let ?req = "sample_request ''POST'' (Some ''http://localhost:5173'')"
  let ?h = "corsHeaders (Some ''http://localhost:5173'') sample_env"
  have run: "fetch ?req sample_env sv = pipeline sv ?h sample_data" for sv
    using fetch_pipeline [of ?req sample_env sample_data sv]
    by (simp add: sample_request_def sample_origin_allowed)
  have embedding: "statusOf (pipeline embedding_down ?h sample_data) = Some 500
     \<and> bodyField ''error'' (pipeline embedding_down ?h sample_data)
         = Some (JStr ''Error creating embeddings for userResponses'')
     \<and> successFlags (fst (pipeline embedding_down ?h sample_data)) = [None]"
    by (simp add: pipeline_def Let_def embedding_down_def sample_services_def fst_preceded
        snd_preceded embeddingFailure_def spanError_def
        successFlags_def errorResponse_def statusOf_def bodyField_def responseOf_def)
  have search: "statusOf (pipeline search_down ?h sample_data) = Some 500
     \<and> bodyField ''error'' (pipeline search_down ?h sample_data)
         = Some (JStr ''Error matching documents in Convex'')
     \<and> successFlags (fst (pipeline search_down ?h sample_data)) = [None]"
    by (simp add: pipeline_def searchStage_def searchMovies_def Let_def search_down_def
        sample_services_def sample_ctx_def fst_preceded
        snd_preceded spanError_def
        successFlags_def errorResponse_def statusOf_def bodyField_def responseOf_def)
  have chat: "statusOf (pipeline chat_down ?h sample_data) = Some 500
     \<and> bodyField ''error'' (pipeline chat_down ?h sample_data)
         = Some (JStr ''Error creating chat completion'')
     \<and> successFlags (fst (pipeline chat_down ?h sample_data)) = [Some (JBool False)]"
    by (simp add: pipeline_def searchStage_def searchMovies_def generationStage_def Let_def
        chat_down_def sample_services_def sample_ctx_def fst_preceded
        snd_preceded generationFailure_def spanError_def
        successFlags_def errorResponse_def statusOf_def bodyField_def responseOf_def)
  from embedding search chat show ?thesis
    by (simp add: run pipeline_finalized_once)
qed

end
